theory Spec2Isabelle
  imports Complex_Main "HOL-Library.Word"
begin

unbundle bit_operations_syntax

section \<open>The AN30259A LED driver (drivers/leds/leds-an30259a.c)\<close>

text \<open>
  The driver keeps a shadow image of the chip's 21 one-byte registers, mutates it with
  \<open>leds_on\<close> and \<open>leds_set_slope_mode\<close>, and flushes it over I2C with
  \<open>leds_i2c_write_all\<close>. The model below is a state-passing translation of these
  functions: the globals of the file and the shadow image form one record, the I2C
  transport is a parameter that answers each transfer with a return code, and an integer
  division by zero is an explicit fault.
\<close>

subsection \<open>Machine types\<close>

type_synonym u8 = "8 word"
type_synonym u32 = "32 word"

subsection \<open>Register map and masks\<close>

definition AN30259A_REG_SRESET :: nat where "AN30259A_REG_SRESET = 0x00"
definition AN30259A_REG_LEDON :: nat where "AN30259A_REG_LEDON = 0x01"
definition AN30259A_REG_SEL :: nat where "AN30259A_REG_SEL = 0x02"
definition AN30259A_REG_LED1CC :: nat where "AN30259A_REG_LED1CC = 0x03"
definition AN30259A_REG_LED1SLP :: nat where "AN30259A_REG_LED1SLP = 0x06"
definition AN30259A_REG_LED1CNT1 :: nat where "AN30259A_REG_LED1CNT1 = 0x09"
definition AN30259A_REG_LED1CNT2 :: nat where "AN30259A_REG_LED1CNT2 = 0x0a"
definition AN30259A_REG_LED1CNT3 :: nat where "AN30259A_REG_LED1CNT3 = 0x0b"
definition AN30259A_REG_LED1CNT4 :: nat where "AN30259A_REG_LED1CNT4 = 0x0c"
definition AN30259A_REG_MAX :: nat where "AN30259A_REG_MAX = 0x15"

definition AN30259A_MASK_DELAY :: u8 where "AN30259A_MASK_DELAY = 0xf0"
definition LED_SLOPE_MODE :: u8 where "LED_SLOPE_MODE = 0x10"
definition LED_ON :: u8 where "LED_ON = 0x01"
definition AN30259A_CTN_RW_FLG :: u8 where "AN30259A_CTN_RW_FLG = 0x80"
definition LED_MAX_CURRENT :: u8 where "LED_MAX_CURRENT = 0xFF"
definition LED_OFF :: u8 where "LED_OFF = 0x00"

definition SLPTT_MAX_VALUE :: u32 where "SLPTT_MAX_VALUE = 7500"
definition AN30259A_TIME_UNIT :: u32 where "AN30259A_TIME_UNIT = 500"

lemmas reg_defs =
  AN30259A_REG_SRESET_def AN30259A_REG_LEDON_def AN30259A_REG_SEL_def
  AN30259A_REG_LED1CC_def AN30259A_REG_LED1SLP_def AN30259A_REG_LED1CNT1_def
  AN30259A_REG_LED1CNT2_def AN30259A_REG_LED1CNT3_def AN30259A_REG_LED1CNT4_def
  AN30259A_REG_MAX_def

lemmas mask_defs =
  AN30259A_MASK_DELAY_def LED_SLOPE_MODE_def LED_ON_def AN30259A_CTN_RW_FLG_def
  LED_MAX_CURRENT_def LED_OFF_def SLPTT_MAX_VALUE_def AN30259A_TIME_UNIT_def

subsection \<open>Enumerations\<close>

datatype an30259a_led_enum = LED_R | LED_G | LED_B

text \<open>The numeric value of the enumerator, as used in \<open>LED_ON << led\<close> and \<open>reg + led\<close>.\<close>

fun led_num :: "an30259a_led_enum \<Rightarrow> nat" where
  "led_num LED_R = 0"
| "led_num LED_G = 1"
| "led_num LED_B = 2"

text \<open>\<open>enum an30259a_pattern\<close>; the pattern operation receives a plain \<open>int\<close>.\<close>

definition PATTERN_OFF :: int where "PATTERN_OFF = 0"
definition CHARGING :: int where "CHARGING = 1"
definition CHARGING_ERR :: int where "CHARGING_ERR = 2"
definition MISSED_NOTI :: int where "MISSED_NOTI = 3"
definition LOW_BATTERY :: int where "LOW_BATTERY = 4"
definition FULLY_CHARGED :: int where "FULLY_CHARGED = 5"
definition POWERING :: int where "POWERING = 6"

lemmas pattern_defs =
  PATTERN_OFF_def CHARGING_def CHARGING_ERR_def MISSED_NOTI_def LOW_BATTERY_def
  FULLY_CHARGED_def POWERING_def

subsection \<open>Bus events, faults and the driver state\<close>

text \<open>
  What the driver does to the outside: taking and releasing \<open>data->mutex\<close>, a block
  write (command byte, length, bytes) and a single byte write (register, value).
\<close>

datatype bus_event =
    MutexLock
  | MutexUnlock
  | BlockWrite u8 nat "u8 list"
  | ByteWrite nat u8

text \<open>
  The transport collaborator: given the events so far and the transfer being made, the
  return code of \<open>i2c_smbus_write_*\<close> (negative on failure).
\<close>

type_synonym transport = "bus_event list \<Rightarrow> bus_event \<Rightarrow> int"

datatype fault = DivideByZero

text \<open>
  The file's globals (names as in the source), \<open>data->shadow_reg\<close>, the mutex and the
  log of bus events. The C \<open>int\<close> globals only ever hold small values (the setters range
  check them), so they are \<open>int\<close>; the \<open>u8\<close> and \<open>u32\<close> globals are words. The
  \<open>unsigned long\<close> flag \<open>disabled_samsung_pattern\<close> is only tested for being nonzero; it
  is 32 bits wide on this ARM target. The array \<open>led_offset[MAX_NUM_LEDS]\<close> is a function
  of the channel.
\<close>

record driver =
  LED_DYNAMIC_CURRENT :: u8
  LED_LOWPOWER_MODE :: u8
  LED_R_CURRENT :: u32
  LED_G_CURRENT :: u32
  LED_B_CURRENT :: u32
  led_default_cur :: u32
  led_lowpower_cur :: u32
  disabled_samsung_pattern :: u32
  led_offset :: "an30259a_led_enum \<Rightarrow> u32"
  led_enable_fade :: int
  led_intensity :: u8
  led_speed :: int
  led_slope_up_1 :: int
  led_slope_up_2 :: int
  led_slope_down_1 :: int
  led_slope_down_2 :: int
  shadow_reg :: "u8 list"
  mutex_held :: bool
  bus_log :: "bus_event list"

text \<open>\<open>data->shadow_reg[r] = v\<close>; every index the driver forms is below 21.\<close>

definition reg_write :: "nat \<Rightarrow> u8 \<Rightarrow> driver \<Rightarrow> driver" where
  "reg_write r v s = s\<lparr>shadow_reg := (shadow_reg s)[r := v]\<rparr>"

definition reg_read :: "driver \<Rightarrow> nat \<Rightarrow> u8" where
  "reg_read s r = shadow_reg s ! r"

subsection \<open>C arithmetic\<close>

text \<open>An \<open>int\<close> argument passed for a \<open>u8\<close> parameter is truncated to eight bits.\<close>

definition u8_of_int :: "int \<Rightarrow> u8" where
  "u8_of_int i = word_of_int i"

text \<open>\<open>a / b\<close> on \<open>int\<close>: truncates towards zero; a zero divisor is a fault.\<close>

definition c_div :: "int \<Rightarrow> int \<Rightarrow> fault + int" where
  "c_div a b = (if b = 0 then Inl DivideByZero else Inr (sgn a * sgn b * (\<bar>a\<bar> div \<bar>b\<bar>)))"

text \<open>
  \<open>a / b\<close> with \<open>a\<close> an \<open>unsigned int\<close> and \<open>b\<close> an \<open>int\<close>: \<open>b\<close> is converted to
  \<open>unsigned int\<close> and the division is unsigned.
\<close>

definition u_div :: "u32 \<Rightarrow> int \<Rightarrow> fault + u32" where
  "u_div a b = (if (word_of_int b :: u32) = 0 then Inl DivideByZero else Inr (a div word_of_int b))"

definition bind_fault :: "fault + 'a \<Rightarrow> ('a \<Rightarrow> fault + 'b) \<Rightarrow> fault + 'b" where
  "bind_fault m f = (case m of Inl e \<Rightarrow> Inl e | Inr x \<Rightarrow> f x)"

subsection \<open>leds_i2c_write_all (lines 257-288)\<close>

definition mutex_lock :: "driver \<Rightarrow> driver" where
  "mutex_lock s = s\<lparr>mutex_held := True, bus_log := bus_log s @ [MutexLock]\<rparr>"

definition mutex_unlock :: "driver \<Rightarrow> driver" where
  "mutex_unlock s = s\<lparr>mutex_held := False, bus_log := bus_log s @ [MutexUnlock]\<rparr>"

text \<open>One transfer: ask the transport for the return code and log the event.\<close>

definition i2c_xfer :: "transport \<Rightarrow> bus_event \<Rightarrow> driver \<Rightarrow> int \<times> driver" where
  "i2c_xfer i2c ev s = (i2c (bus_log s) ev, s\<lparr>bus_log := bus_log s @ [ev]\<rparr>)"

definition config_block :: "driver \<Rightarrow> bus_event" where
  "config_block s =
     BlockWrite (word_of_nat AN30259A_REG_SEL OR AN30259A_CTN_RW_FLG)
       (AN30259A_REG_MAX - AN30259A_REG_SEL)
       (take (AN30259A_REG_MAX - AN30259A_REG_SEL) (drop AN30259A_REG_SEL (shadow_reg s)))"

definition enable_byte :: "driver \<Rightarrow> bus_event" where
  "enable_byte s = ByteWrite AN30259A_REG_LEDON (reg_read s AN30259A_REG_LEDON)"

definition leds_i2c_write_all :: "transport \<Rightarrow> driver \<Rightarrow> int \<times> driver" where
  "leds_i2c_write_all i2c s =
     (let s = mutex_lock s;
          (ret, s) = i2c_xfer i2c (config_block s) s
      in if ret < 0 then (ret, mutex_unlock s)
         else
           let (ret, s) = i2c_xfer i2c (enable_byte s) s
           in if ret < 0 then (ret, mutex_unlock s)
              else (0, mutex_unlock s))"

subsection \<open>leds_set_slope_mode (lines 321-337)\<close>

text \<open>
  \<open>hi << 4 | lo\<close> stored into a \<open>u8\<close> register: the operands are promoted to \<open>int\<close>,
  the result is truncated to eight bits by the store.
\<close>

definition pack_nibbles :: "u8 \<Rightarrow> u8 \<Rightarrow> u8" where
  "pack_nibbles hi lo = ucast (push_bit 4 (ucast hi :: u32) OR (ucast lo :: u32))"

definition leds_set_slope_mode ::
  "an30259a_led_enum \<Rightarrow> u8 \<Rightarrow> u8 \<Rightarrow> u8 \<Rightarrow> u8 \<Rightarrow> u8 \<Rightarrow> u8 \<Rightarrow> u8 \<Rightarrow> u8 \<Rightarrow> u8 \<Rightarrow> u8 \<Rightarrow>
     driver \<Rightarrow> driver" where
  "leds_set_slope_mode led delay dutymax dutymid dutymin slptt1 slptt2 dt1 dt2 dt3 dt4 s =
     (let s = reg_write (AN30259A_REG_LED1CNT1 + led_num led * 4) (pack_nibbles dutymax dutymid) s;
          s = reg_write (AN30259A_REG_LED1CNT2 + led_num led * 4) (pack_nibbles delay dutymin) s;
          s = reg_write (AN30259A_REG_LED1CNT3 + led_num led * 4) (pack_nibbles dt2 dt1) s;
          s = reg_write (AN30259A_REG_LED1CNT4 + led_num led * 4) (pack_nibbles dt4 dt3) s
      in reg_write (AN30259A_REG_LED1SLP + led_num led) (pack_nibbles slptt2 slptt1) s)"

text \<open>Reading a packed byte back: the high and the low nibble.\<close>

definition hi_nibble :: "u8 \<Rightarrow> u8" where
  "hi_nibble b = drop_bit 4 b"

definition lo_nibble :: "u8 \<Rightarrow> u8" where
  "lo_nibble b = b AND 0x0f"

subsection \<open>leds_on (lines 339-361)\<close>

text \<open>
  \<open>ledcc += led_offset[led]\<close> adds a \<open>u32\<close> to a \<open>u8\<close>: the sum is formed in 32 bits
  and truncated to eight bits by the assignment. The masks \<open>LED_ON << led\<close> and
  \<open>~(LED_ON << led)\<close> are applied to a \<open>u8\<close> register, so only their low eight bits
  matter; they are formed in eight bits here.
\<close>

definition leds_on :: "an30259a_led_enum \<Rightarrow> bool \<Rightarrow> bool \<Rightarrow> u8 \<Rightarrow> driver \<Rightarrow> driver" where
  "leds_on led on slopemode ledcc s =
     (let ledcc = (if ledcc > 0 then ucast ((ucast ledcc :: u32) + led_offset s led) else ledcc);
          s = (if on then
                 reg_write AN30259A_REG_LEDON
                   (reg_read s AN30259A_REG_LEDON OR push_bit (led_num led) LED_ON) s
               else
                 let s = reg_write AN30259A_REG_LEDON
                           (reg_read s AN30259A_REG_LEDON AND NOT (push_bit (led_num led) LED_ON)) s
                 in reg_write (AN30259A_REG_LED1CNT2 + led_num led * 4)
                      (reg_read s (AN30259A_REG_LED1CNT2 + led_num led * 4)
                         AND NOT AN30259A_MASK_DELAY) s);
          s = (if slopemode \<and> led_speed s \<noteq> 0 then
                 reg_write AN30259A_REG_LEDON
                   (reg_read s AN30259A_REG_LEDON OR push_bit (led_num led) LED_SLOPE_MODE) s
               else
                 reg_write AN30259A_REG_LEDON
                   (reg_read s AN30259A_REG_LEDON AND NOT (push_bit (led_num led) LED_SLOPE_MODE)) s)
      in reg_write (AN30259A_REG_LED1CC + led_num led) ledcc s)"

subsection \<open>an30259a_reset_register_work (lines 382-395)\<close>

text \<open>The return value of the commit is only logged with \<open>printk\<close>.\<close>

definition an30259a_reset_register_work :: "transport \<Rightarrow> driver \<Rightarrow> driver" where
  "an30259a_reset_register_work i2c s =
     (let s = leds_on LED_R False False 0 s;
          s = leds_on LED_G False False 0 s;
          s = leds_on LED_B False False 0 s
      in snd (leds_i2c_write_all i2c s))"

subsection \<open>an30259a_start_led_pattern (lines 397-501)\<close>

text \<open>
  The slope call of the three blinking patterns: \<open>15 / led_speed\<close> and \<open>7 / led_speed\<close>
  (or \<open>15 / led_speed\<close> twice without fade) are evaluated as arguments; \<open>slptt2\<close> is the
  literal 1 for CHARGING_ERR and \<open>10 / led_speed\<close> for the other two.
\<close>

definition pattern_slope ::
  "an30259a_led_enum \<Rightarrow> u8 \<Rightarrow> bool \<Rightarrow> driver \<Rightarrow> fault + driver" where
  "pattern_slope led delay slptt2_divided s =
     bind_fault (c_div 15 (led_speed s)) (\<lambda>dutymax.
     bind_fault (c_div (if led_enable_fade s = 1 then 7 else 15) (led_speed s)) (\<lambda>dutymid.
     bind_fault (if slptt2_divided then c_div 10 (led_speed s) else Inr 1) (\<lambda>slptt2.
       Inr (if led_enable_fade s = 1 then
              leds_set_slope_mode led delay (u8_of_int dutymax) (u8_of_int dutymid) 0
                1 (u8_of_int slptt2)
                (u8_of_int (led_slope_up_1 s)) (u8_of_int (led_slope_up_2 s))
                (u8_of_int (led_slope_down_1 s)) (u8_of_int (led_slope_down_2 s)) s
            else
              leds_set_slope_mode led delay (u8_of_int dutymax) (u8_of_int dutymid) 0
                1 (u8_of_int slptt2) 0 0 0 0 s))))"

definition an30259a_start_led_pattern :: "transport \<Rightarrow> int \<Rightarrow> driver \<Rightarrow> fault + driver" where
  "an30259a_start_led_pattern i2c mode s =
     (if mode > POWERING then Inr s
      else if disabled_samsung_pattern s \<noteq> 0 then Inr s
      else
        let s = an30259a_reset_register_work i2c s
        in if mode = uint LED_OFF then Inr s
           else
             let s = s\<lparr>LED_DYNAMIC_CURRENT :=
                         (if LED_LOWPOWER_MODE s = 1 then ucast (led_lowpower_cur s)
                          else ucast (led_default_cur s))\<rparr>;
                 r_brightness = (if led_intensity s = 0 then ucast (LED_R_CURRENT s)
                                 else min (led_intensity s) LED_MAX_CURRENT);
                 g_brightness = (if led_intensity s = 0 then ucast (LED_G_CURRENT s)
                                 else min (led_intensity s) LED_MAX_CURRENT);
                 b_brightness = (if led_intensity s = 0 then ucast (LED_B_CURRENT s)
                                 else min (led_intensity s) LED_MAX_CURRENT);
                 commit = (\<lambda>s. Inr (snd (leds_i2c_write_all i2c s)))
             in if mode = CHARGING then
                  commit (leds_on LED_R True False r_brightness s)
                else if mode = CHARGING_ERR then
                  bind_fault (pattern_slope LED_R 1 False (leds_on LED_R True True r_brightness s))
                    commit
                else if mode = MISSED_NOTI then
                  bind_fault (pattern_slope LED_B 10 True (leds_on LED_B True True b_brightness s))
                    commit
                else if mode = LOW_BATTERY then
                  bind_fault (pattern_slope LED_R 10 True (leds_on LED_R True True r_brightness s))
                    commit
                else if mode = FULLY_CHARGED then
                  commit (leds_on LED_G True False g_brightness s)
                else if mode = POWERING then
                  commit (leds_set_slope_mode LED_B 0 15 12 8 2 2 3 3 3 3
                            (leds_on LED_B True True (LED_DYNAMIC_CURRENT s) s))
                else Inr s)"

subsection \<open>an30259a_set_led_blink (lines 503-562)\<close>

text \<open>The channel's current, copied into \<open>LED_DYNAMIC_CURRENT\<close> (lines 519-524).\<close>

fun led_current :: "an30259a_led_enum \<Rightarrow> driver \<Rightarrow> u32" where
  "led_current LED_R s = LED_R_CURRENT s"
| "led_current LED_G s = LED_G_CURRENT s"
| "led_current LED_B s = LED_B_CURRENT s"

text \<open>
  Lines 516-530: the value of \<open>brightness\<close> after the intensity policy. The products
  are formed in \<open>int\<close> (both operands are \<open>u8\<close>) and the quotient is stored into a
  \<open>u8\<close>.
\<close>

definition blink_brightness :: "an30259a_led_enum \<Rightarrow> u8 \<Rightarrow> driver \<Rightarrow> u8" where
  "blink_brightness led brightness s =
     (let brightness = (if brightness > LED_MAX_CURRENT then LED_MAX_CURRENT else brightness);
          dynamic_current = (ucast (led_current led s) :: u8)
      in if led_intensity s = 40 then
           u8_of_int ((uint brightness * uint dynamic_current) div uint LED_MAX_CURRENT)
         else if led_intensity s \<noteq> 0 then
           u8_of_int ((uint brightness * uint (led_intensity s)) div uint LED_MAX_CURRENT)
         else brightness)"

text \<open>
  \<open>((delay / led_speed) + AN30259A_TIME_UNIT - 1) / AN30259A_TIME_UNIT\<close> in
  \<open>unsigned int\<close>, passed for a \<open>u8\<close> parameter.
\<close>

definition slope_time :: "u32 \<Rightarrow> int \<Rightarrow> fault + u8" where
  "slope_time delay speed =
     bind_fault (u_div delay speed) (\<lambda>q.
       Inr (ucast ((q + AN30259A_TIME_UNIT - 1) div AN30259A_TIME_UNIT)))"

definition an30259a_set_led_blink ::
  "an30259a_led_enum \<Rightarrow> u32 \<Rightarrow> u32 \<Rightarrow> u8 \<Rightarrow> driver \<Rightarrow> fault + driver" where
  "an30259a_set_led_blink led delay_on_time delay_off_time brightness s =
     (if brightness = LED_OFF then Inr (leds_on led False False brightness s)
      else
        let brightness = blink_brightness led brightness s;
            s = s\<lparr>LED_DYNAMIC_CURRENT := ucast (led_current led s)\<rparr>;
            delay_on_time = (if delay_on_time > SLPTT_MAX_VALUE then SLPTT_MAX_VALUE
                             else delay_on_time);
            delay_off_time = (if delay_off_time > SLPTT_MAX_VALUE then SLPTT_MAX_VALUE
                              else delay_off_time)
        in if delay_off_time = 0 then
             (let s = leds_on led True False brightness s
              in Inr (if brightness = LED_OFF then leds_on led False False brightness s else s))
           else
             let s = leds_on led True True brightness s
             in bind_fault (c_div 15 (led_speed s)) (\<lambda>dutymax.
                bind_fault (c_div (if led_enable_fade s = 1 then 7 else 15) (led_speed s)) (\<lambda>dutymid.
                bind_fault (slope_time delay_on_time (led_speed s)) (\<lambda>slptt1.
                bind_fault (slope_time delay_off_time (led_speed s)) (\<lambda>slptt2.
                  Inr (if led_enable_fade s = 1 then
                         leds_set_slope_mode led 0 (u8_of_int dutymax) (u8_of_int dutymid) 0
                           slptt1 slptt2
                           (u8_of_int (led_slope_up_1 s)) (u8_of_int (led_slope_up_2 s))
                           (u8_of_int (led_slope_down_1 s)) (u8_of_int (led_slope_down_2 s)) s
                       else
                         leds_set_slope_mode led 0 (u8_of_int dutymax) (u8_of_int dutymid) 0
                           slptt1 slptt2 0 0 0 0 s))))))"

subsection \<open>store_an30259a_led_speed (lines 735-748)\<close>

text \<open>
  \<open>sscanf(buf, "%d", &new_led_speed)\<close> either stores the parsed integer or leaves the
  initial value -1; the argument is the parse result.
\<close>

definition store_an30259a_led_speed :: "int option \<Rightarrow> driver \<Rightarrow> driver" where
  "store_an30259a_led_speed parsed s =
     (let new_led_speed = (case parsed of None \<Rightarrow> - 1 | Some v \<Rightarrow> v)
      in if new_led_speed \<ge> 0 \<and> new_led_speed \<le> 15 then s\<lparr>led_speed := new_led_speed\<rparr>
         else s)"

subsection \<open>Concrete states\<close>

text \<open>
  The state that \<open>an30259a_probe\<close> leaves with the built-in defaults: every current
  0x28, intensity 40, speed 1, fade off, slope presets 1, no calibration offset, and the
  register image of a freshly reset chip.
\<close>

definition probe_state :: driver where
  "probe_state =
     \<lparr>LED_DYNAMIC_CURRENT = 0x28, LED_LOWPOWER_MODE = 0,
      LED_R_CURRENT = 0x28, LED_G_CURRENT = 0x28, LED_B_CURRENT = 0x28,
      led_default_cur = 0x28, led_lowpower_cur = 0x05,
      disabled_samsung_pattern = 0, led_offset = (\<lambda>_. 0),
      led_enable_fade = 0, led_intensity = 40, led_speed = 1,
      led_slope_up_1 = 1, led_slope_up_2 = 1, led_slope_down_1 = 1, led_slope_down_2 = 1,
      shadow_reg = replicate 21 0, mutex_held = False, bus_log = []\<rparr>"

text \<open>A transport that accepts every transfer, and one that refuses block writes with -EIO.\<close>

definition i2c_ok :: transport where
  "i2c_ok hist ev = 0"

definition i2c_block_fails :: transport where
  "i2c_block_fails hist ev = (case ev of BlockWrite c n bs \<Rightarrow> - 5 | _ \<Rightarrow> 0)"

text \<open>
  A state with a calibration offset of 0x10 on every channel and a start delay of 10
  half-seconds left in the red channel's CNT2 register.
\<close>

definition offset_state :: driver where
  "offset_state =
     probe_state\<lparr>led_offset := (\<lambda>_. 0x10), shadow_reg := (replicate 21 0)[10 := 0xA0]\<rparr>"

text \<open>
  The red channel lit in slope mode at code 0x28 (its enable and slope-mode bits set in
  LEDON), once with named patterns enabled and once with them disabled.
\<close>

definition lit_state :: driver where
  "lit_state = probe_state\<lparr>shadow_reg := (replicate 21 0)[1 := 0x11, 3 := 0x28]\<rparr>"

definition lit_disabled_state :: driver where
  "lit_disabled_state =
     probe_state\<lparr>disabled_samsung_pattern := 1,
       shadow_reg := (replicate 21 0)[1 := 0x11, 3 := 0x28]\<rparr>"

text \<open>
  The image expected after \<open>set_blink(LED_R, 1000, 500, 0x80)\<close> from the probe state:
  red enabled in slope mode, current code 20, slope times 2 and 1, both duties 15.
\<close>

definition blink_scenario_state :: driver where
  "blink_scenario_state =
     probe_state\<lparr>shadow_reg := (replicate 21 0)[1 := 0x11, 3 := 20, 6 := 0x12, 9 := 0xFF]\<rparr>"

subsection \<open>The claims' formulas, in the spec's words\<close>



text \<open>
  The spec's slope-phase conversion: \<open>ceil(d / s / 500)\<close> on the duration clamped to
  7500 ms, with real division.
\<close>

definition spec_slope_phase :: "nat \<Rightarrow> int \<Rightarrow> nat" where
  "spec_slope_phase d s = nat \<lceil>real (min d 7500) / real_of_int s / 500\<rceil>"

subsection \<open>More concrete states\<close>




text \<open>
  The probe state at speed divisor 2, and the image expected there after
  \<open>set_blink(LED_R, 1001, 500, 0x80)\<close>.
\<close>

definition half_speed_state :: driver where
  "half_speed_state = probe_state\<lparr>led_speed := 2\<rparr>"

definition half_speed_blink_state :: driver where
  "half_speed_blink_state =
     half_speed_state\<lparr>shadow_reg := (replicate 21 0)[1 := 0x11, 3 := 20, 6 := 0x11, 9 := 0x77]\<rparr>"

section \<open>Nibble packing\<close>

lemma pack_nibbles_eq: "pack_nibbles hi lo = push_bit 4 hi OR lo"
  unfolding pack_nibbles_def
  by (rule bit_word_eqI) (auto simp: bit_simps)

lemma nibble_bit:
  fixes x :: u8
  assumes "x < 16" and "bit x n"
  shows "n < 4"
proof -
  have "x AND mask 4 = x"
    using assms(1) less_mask_eq [of x 4] by simp
  then have "bit (x AND mask 4) n"
    using assms(2) by simp
  then show ?thesis
    by (simp add: bit_simps)
qed

lemma hi_nibble_pack:
  assumes "hi < 16" and "lo < 16"
  shows "hi_nibble (pack_nibbles hi lo) = hi"
  unfolding pack_nibbles_eq hi_nibble_def
proof (rule bit_word_eqI)
  fix n assume "n < LENGTH(8)"
  show "bit (drop_bit 4 (push_bit 4 hi OR lo)) n = bit hi n"
    using nibble_bit [OF assms(2), of "4 + n"] nibble_bit [OF assms(1), of n]
    by (auto simp: bit_simps)
qed

lemma lo_nibble_pack:
  assumes "lo < 16"
  shows "lo_nibble (pack_nibbles hi lo) = lo"
  unfolding pack_nibbles_eq lo_nibble_def
proof (rule bit_word_eqI)
  fix n assume "n < LENGTH(8)"
  have m: "(0x0f :: u8) = mask 4" by (simp add: mask_eq_exp_minus_1)
  show "bit ((push_bit 4 hi OR lo) AND 0x0f) n = bit lo n"
    unfolding m using nibble_bit [OF assms, of n]
    by (auto simp: bit_simps)
qed

section \<open>The slope encoder\<close>

lemma led_num_cases: "led_num led = 0 \<or> led_num led = 1 \<or> led_num led = 2"
  by (cases led) simp_all

lemma leds_set_slope_mode_regs:
  "leds_set_slope_mode led delay dutymax dutymid dutymin slptt1 slptt2 dt1 dt2 dt3 dt4 s =
     s\<lparr>shadow_reg := (shadow_reg s)
        [AN30259A_REG_LED1CNT1 + led_num led * 4 := pack_nibbles dutymax dutymid,
         AN30259A_REG_LED1CNT2 + led_num led * 4 := pack_nibbles delay dutymin,
         AN30259A_REG_LED1CNT3 + led_num led * 4 := pack_nibbles dt2 dt1,
         AN30259A_REG_LED1CNT4 + led_num led * 4 := pack_nibbles dt4 dt3,
         AN30259A_REG_LED1SLP + led_num led := pack_nibbles slptt2 slptt1]\<rparr>"
  by (simp add: leds_set_slope_mode_def reg_write_def)

text \<open>
  C8. The packing of \<open>leds_set_slope_mode\<close> round-trips: for nibble-range \<open>dutymax\<close>,
  \<open>dutymid\<close>, \<open>dutymin\<close> and \<open>delay\<close>, the high and low nibbles of the channel's
  CNT1 byte are \<open>dutymax\<close> and \<open>dutymid\<close>, and those of its CNT2 byte are \<open>delay\<close>
  and \<open>dutymin\<close>.
\<close>

theorem slope_mode_roundtrip:
  fixes s :: driver and led :: an30259a_led_enum
    and delay dutymax dutymid dutymin slptt1 slptt2 dt1 dt2 dt3 dt4 :: u8
  assumes "length (shadow_reg s) = 21"
    and "dutymax < 16" and "dutymid < 16" and "dutymin < 16" and "delay < 16"
  defines "s' \<equiv> leds_set_slope_mode led delay dutymax dutymid dutymin slptt1 slptt2 dt1 dt2 dt3 dt4 s"
  shows "hi_nibble (reg_read s' (AN30259A_REG_LED1CNT1 + led_num led * 4)) = dutymax
    \<and> lo_nibble (reg_read s' (AN30259A_REG_LED1CNT1 + led_num led * 4)) = dutymid
    \<and> hi_nibble (reg_read s' (AN30259A_REG_LED1CNT2 + led_num led * 4)) = delay
    \<and> lo_nibble (reg_read s' (AN30259A_REG_LED1CNT2 + led_num led * 4)) = dutymin"
proof -
  have "reg_read s' (AN30259A_REG_LED1CNT1 + led_num led * 4) = pack_nibbles dutymax dutymid"
    and "reg_read s' (AN30259A_REG_LED1CNT2 + led_num led * 4) = pack_nibbles delay dutymin"
    using assms(1) led_num_cases [of led]
    unfolding s'_def leds_set_slope_mode_regs
    by (auto simp: reg_read_def reg_defs)
  then show ?thesis
    using assms(2-5) by (simp add: hi_nibble_pack lo_nibble_pack)
qed

theorem slope_mode_roundtrip_witness:
  "length (shadow_reg probe_state) = 21
   \<and> (15::u8) < 16 \<and> (7::u8) < 16 \<and> (0::u8) < 16 \<and> (1::u8) < 16
   \<and> hi_nibble (reg_read (leds_set_slope_mode LED_R 1 15 7 0 1 1 0 0 0 0 probe_state) 9) = 15
   \<and> lo_nibble (reg_read (leds_set_slope_mode LED_R 1 15 7 0 1 1 0 0 0 0 probe_state) 9) = 7
   \<and> hi_nibble (reg_read (leds_set_slope_mode LED_R 1 15 7 0 1 1 0 0 0 0 probe_state) 10) = 1
   \<and> lo_nibble (reg_read (leds_set_slope_mode LED_R 1 15 7 0 1 1 0 0 0 0 probe_state) 10) = 0"
  using slope_mode_roundtrip [of probe_state 15 7 0 1 LED_R 1 1 0 0 0 0]
  by (simp add: probe_state_def reg_defs)

text \<open>
  C10. For every channel and all arguments, \<open>leds_set_slope_mode\<close> changes nothing but
  the shadow image, and in the image it writes the channel's four counter registers and
  its slope register with the packed bytes; every other register (the enable byte, the
  current codes, the registers of the other two channels) keeps its value.
\<close>

theorem slope_mode_frame:
  fixes s :: driver and led :: an30259a_led_enum
    and delay dutymax dutymid dutymin slptt1 slptt2 dt1 dt2 dt3 dt4 :: u8
  assumes "length (shadow_reg s) = 21"
  defines "s' \<equiv> leds_set_slope_mode led delay dutymax dutymid dutymin slptt1 slptt2 dt1 dt2 dt3 dt4 s"
  shows "s'\<lparr>shadow_reg := shadow_reg s\<rparr> = s
    \<and> length (shadow_reg s') = 21
    \<and> reg_read s' (AN30259A_REG_LED1CNT1 + led_num led * 4) = pack_nibbles dutymax dutymid
    \<and> reg_read s' (AN30259A_REG_LED1CNT2 + led_num led * 4) = pack_nibbles delay dutymin
    \<and> reg_read s' (AN30259A_REG_LED1CNT3 + led_num led * 4) = pack_nibbles dt2 dt1
    \<and> reg_read s' (AN30259A_REG_LED1CNT4 + led_num led * 4) = pack_nibbles dt4 dt3
    \<and> reg_read s' (AN30259A_REG_LED1SLP + led_num led) = pack_nibbles slptt2 slptt1
    \<and> (\<forall>i. i \<notin> {AN30259A_REG_LED1CNT1 + led_num led * 4, AN30259A_REG_LED1CNT2 + led_num led * 4,
               AN30259A_REG_LED1CNT3 + led_num led * 4, AN30259A_REG_LED1CNT4 + led_num led * 4,
               AN30259A_REG_LED1SLP + led_num led}
          \<longrightarrow> reg_read s' i = reg_read s i)"
  using assms(1) led_num_cases [of led]
  unfolding s'_def leds_set_slope_mode_regs
  by (auto simp: reg_read_def reg_defs)

theorem slope_mode_frame_witness:
  "length (shadow_reg probe_state) = 21
   \<and> (3::nat) \<notin> {13, 14, 15, 16, 7}
   \<and> reg_read (leds_set_slope_mode LED_G 1 15 7 0 1 1 0 0 0 0 probe_state) 3 = reg_read probe_state 3
   \<and> reg_read (leds_set_slope_mode LED_G 1 15 7 0 1 1 0 0 0 0 probe_state) 13 = pack_nibbles 15 7"
  using slope_mode_frame [of probe_state LED_G 1 15 7 0 1 1 0 0 0 0]
  by (simp add: probe_state_def reg_defs)

section \<open>The steady encoder\<close>

lemma leds_on_other_fields: "(leds_on led on slopemode ledcc s)\<lparr>shadow_reg := shadow_reg s\<rparr> = s"
  by (simp add: leds_on_def reg_write_def Let_def)

lemma leds_on_length [simp]:
  "length (shadow_reg (leds_on led on slopemode ledcc s)) = length (shadow_reg s)"
  by (simp add: leds_on_def reg_write_def Let_def)

lemma leds_on_LEDON:
  assumes "length (shadow_reg s) = 21"
  shows "reg_read (leds_on led on slopemode ledcc s) AN30259A_REG_LEDON =
     (let e = (if on then reg_read s AN30259A_REG_LEDON OR push_bit (led_num led) LED_ON
               else reg_read s AN30259A_REG_LEDON AND NOT (push_bit (led_num led) LED_ON))
      in if slopemode \<and> led_speed s \<noteq> 0 then e OR push_bit (led_num led) LED_SLOPE_MODE
         else e AND NOT (push_bit (led_num led) LED_SLOPE_MODE))"
  using assms led_num_cases [of led]
  by (auto simp: leds_on_def reg_write_def reg_read_def Let_def reg_defs)

lemma leds_on_CC:
  assumes "length (shadow_reg s) = 21"
  shows "reg_read (leds_on led on slopemode ledcc s) (AN30259A_REG_LED1CC + led_num led) =
     (if ledcc > 0 then ucast ((ucast ledcc :: u32) + led_offset s led) else ledcc)"
  using assms led_num_cases [of led]
  by (auto simp: leds_on_def reg_write_def reg_read_def Let_def reg_defs)

lemma leds_on_frame:
  assumes "i \<noteq> AN30259A_REG_LEDON" and "i \<noteq> AN30259A_REG_LED1CC + led_num led"
    and "on \<or> i \<noteq> AN30259A_REG_LED1CNT2 + led_num led * 4"
  shows "reg_read (leds_on led on slopemode ledcc s) i = reg_read s i"
  using assms
  by (auto simp: leds_on_def reg_write_def reg_read_def Let_def)

lemma u8_add_u32:
  "unat (ucast ((ucast (c::u8) :: u32) + off) :: u8) = (unat c + unat off) mod 256"
proof -
  have "unat c < 256"
    using unsigned_less [of c, where 'a = nat] by simp
  then have "unat c mod 4294967296 = unat c"
    by simp
  then show ?thesis
    by (simp add: unsigned_ucast_eq unat_word_ariths take_bit_eq_mod mod_mod_cancel)
qed

text \<open>
  C5 (as the code has it). For every channel and current code, \<open>leds_on\<close> with
  \<open>on = true\<close> and \<open>slopemode = false\<close> sets the channel's enable bit and clears its
  slope-mode bit; the current-code byte becomes 0 for code 0 and otherwise code plus the
  channel's calibration offset modulo 256 (the sum wraps, it does not saturate); every
  other register, the start-delay field in CNT2 included, keeps its value; nothing but
  the shadow image changes, so nothing reaches the bus.
\<close>

theorem steady_encode:
  fixes s :: driver and led :: an30259a_led_enum and ledcc :: u8
  assumes "length (shadow_reg s) = 21"
  defines "s' \<equiv> leds_on led True False ledcc s"
  shows "bit (reg_read s' AN30259A_REG_LEDON) (led_num led)
    \<and> \<not> bit (reg_read s' AN30259A_REG_LEDON) (4 + led_num led)
    \<and> unat (reg_read s' (AN30259A_REG_LED1CC + led_num led)) =
        (if ledcc = 0 then 0 else (unat ledcc + unat (led_offset s led)) mod 256)
    \<and> (\<forall>i. i \<noteq> AN30259A_REG_LEDON \<and> i \<noteq> AN30259A_REG_LED1CC + led_num led
          \<longrightarrow> reg_read s' i = reg_read s i)
    \<and> s'\<lparr>shadow_reg := shadow_reg s\<rparr> = s
    \<and> bus_log s' = bus_log s"
proof -
  have on: "bit (reg_read s' AN30259A_REG_LEDON) (led_num led)"
    and slope: "\<not> bit (reg_read s' AN30259A_REG_LEDON) (4 + led_num led)"
    unfolding s'_def leds_on_LEDON [OF assms(1)]
    using led_num_cases [of led]
    by (auto simp: Let_def mask_defs bit_simps)
  have cc: "unat (reg_read s' (AN30259A_REG_LED1CC + led_num led)) =
        (if ledcc = 0 then 0 else (unat ledcc + unat (led_offset s led)) mod 256)"
    unfolding s'_def leds_on_CC [OF assms(1)]
    by (simp add: u8_add_u32 word_greater_zero_iff)
  have frame: "\<forall>i. i \<noteq> AN30259A_REG_LEDON \<and> i \<noteq> AN30259A_REG_LED1CC + led_num led
          \<longrightarrow> reg_read s' i = reg_read s i"
    unfolding s'_def by (simp add: leds_on_frame)
  have other: "s'\<lparr>shadow_reg := shadow_reg s\<rparr> = s"
    unfolding s'_def by (rule leds_on_other_fields)
  have "bus_log s' = bus_log s"
    unfolding s'_def by (simp add: leds_on_def reg_write_def Let_def)
  with on slope cc frame other show ?thesis by blast
qed

theorem steady_encode_witness:
  "length (shadow_reg offset_state) = 21
   \<and> bit (reg_read (leds_on LED_R True False 0xF8 offset_state) 1) 0
   \<and> \<not> bit (reg_read (leds_on LED_R True False 0xF8 offset_state) 1) 4
   \<and> unat (reg_read (leds_on LED_R True False 0xF8 offset_state) 3) = 8
   \<and> reg_read (leds_on LED_R True False 0xF8 offset_state) 10 = reg_read offset_state 10"
  using steady_encode [of offset_state LED_R "0xF8"]
  by (simp add: offset_state_def probe_state_def reg_defs)

text \<open>
  Against C5 as stated: with a start delay of 10 in CNT2 and an offset of 0x10, the
  steady encode of code 0xF8 leaves the delay nibble at 10 and stores 0x08, not 255; the
  steady encode of code 0 stores 0, not the offset.
\<close>

theorem steady_encode_counterexample:
  "hi_nibble (reg_read (leds_on LED_R True False 0xF8 offset_state) 10) = 0xA
   \<and> reg_read (leds_on LED_R True False 0xF8 offset_state) 3 = 0x08
   \<and> reg_read (leds_on LED_R True False 0 offset_state) 3 = 0"
  by (simp add: leds_on_def reg_write_def reg_read_def offset_state_def probe_state_def
      hi_nibble_def reg_defs mask_defs Let_def)

section \<open>The speed setter\<close>




section \<open>The commit\<close>

lemma config_block_21:
  assumes "length (shadow_reg s) = 21"
  shows "config_block s = BlockWrite 0x82 19 (drop 2 (shadow_reg s))"
  using assms by (simp add: config_block_def reg_defs mask_defs)

text \<open>
  C2. \<open>leds_i2c_write_all\<close> takes the lock and writes the 19 bytes from the select
  register to the end of the image as one block, before the enable byte. If the block
  write fails, the enable byte is not written, the lock is released, the negative return
  code goes to the caller and the shadow image is as it was before the call. Otherwise
  the enable byte follows the block, the lock is released, and the result is the enable
  write's code if negative and 0 if not.
\<close>

theorem commit_order:
  fixes i2c :: transport and s :: driver
  assumes "length (shadow_reg s) = 21"
  defines "cfg \<equiv> BlockWrite 0x82 19 (drop 2 (shadow_reg s))"
  defines "en \<equiv> ByteWrite 1 (shadow_reg s ! 1)"
  defines "ret1 \<equiv> i2c (bus_log s @ [MutexLock]) cfg"
  defines "ret2 \<equiv> i2c (bus_log s @ [MutexLock, cfg]) en"
  shows "(ret1 < 0 \<longrightarrow>
           leds_i2c_write_all i2c s =
             (ret1, s\<lparr>mutex_held := False, bus_log := bus_log s @ [MutexLock, cfg, MutexUnlock]\<rparr>))
       \<and> (\<not> ret1 < 0 \<longrightarrow>
           leds_i2c_write_all i2c s =
             (if ret2 < 0 then ret2 else 0,
              s\<lparr>mutex_held := False, bus_log := bus_log s @ [MutexLock, cfg, en, MutexUnlock]\<rparr>))"
  unfolding cfg_def en_def ret1_def ret2_def
  using config_block_21 [OF assms(1)]
  by (simp add: leds_i2c_write_all_def mutex_lock_def mutex_unlock_def i2c_xfer_def
      enable_byte_def reg_read_def reg_defs config_block_def Let_def)

theorem commit_order_witness:
  "length (shadow_reg probe_state) = 21
   \<and> i2c_block_fails (bus_log probe_state @ [MutexLock])
        (BlockWrite 0x82 19 (drop 2 (shadow_reg probe_state))) < 0
   \<and> leds_i2c_write_all i2c_block_fails probe_state =
       (- 5, probe_state\<lparr>bus_log := [MutexLock, BlockWrite 0x82 19 (replicate 19 0), MutexUnlock]\<rparr>)
   \<and> \<not> i2c_ok (bus_log probe_state @ [MutexLock])
        (BlockWrite 0x82 19 (drop 2 (shadow_reg probe_state))) < 0
   \<and> leds_i2c_write_all i2c_ok probe_state =
       (0, probe_state\<lparr>bus_log :=
             [MutexLock, BlockWrite 0x82 19 (replicate 19 0), ByteWrite 1 0, MutexUnlock]\<rparr>)"
  using commit_order [of probe_state i2c_block_fails] commit_order [of probe_state i2c_ok]
  by (simp add: probe_state_def i2c_block_fails_def i2c_ok_def)

section \<open>Named patterns\<close>

lemma write_all_shadow [simp]: "shadow_reg (snd (leds_i2c_write_all i2c s)) = shadow_reg s"
  by (simp add: leds_i2c_write_all_def mutex_lock_def mutex_unlock_def i2c_xfer_def Let_def
      split: prod.splits)

lemma write_all_fields:
  "(snd (leds_i2c_write_all i2c s))\<lparr>mutex_held := mutex_held s, bus_log := bus_log s\<rparr> = s"
  by (simp add: leds_i2c_write_all_def mutex_lock_def mutex_unlock_def i2c_xfer_def Let_def
      split: prod.splits)

lemma write_all_globals [simp]:
  "led_speed (snd (leds_i2c_write_all i2c s)) = led_speed s"
  "led_enable_fade (snd (leds_i2c_write_all i2c s)) = led_enable_fade s"
  "LED_LOWPOWER_MODE (snd (leds_i2c_write_all i2c s)) = LED_LOWPOWER_MODE s"
  "led_lowpower_cur (snd (leds_i2c_write_all i2c s)) = led_lowpower_cur s"
  "led_default_cur (snd (leds_i2c_write_all i2c s)) = led_default_cur s"
  by (simp_all add: leds_i2c_write_all_def mutex_lock_def mutex_unlock_def i2c_xfer_def Let_def
      split: prod.splits)

lemma leds_on_globals [simp]:
  "led_speed (leds_on led on slopemode ledcc s) = led_speed s"
  "led_enable_fade (leds_on led on slopemode ledcc s) = led_enable_fade s"
  "LED_LOWPOWER_MODE (leds_on led on slopemode ledcc s) = LED_LOWPOWER_MODE s"
  "led_lowpower_cur (leds_on led on slopemode ledcc s) = led_lowpower_cur s"
  "led_default_cur (leds_on led on slopemode ledcc s) = led_default_cur s"
  by (simp_all add: leds_on_def reg_write_def Let_def)

lemma reset_globals [simp]:
  "led_speed (an30259a_reset_register_work i2c s) = led_speed s"
  "led_enable_fade (an30259a_reset_register_work i2c s) = led_enable_fade s"
  "LED_LOWPOWER_MODE (an30259a_reset_register_work i2c s) = LED_LOWPOWER_MODE s"
  "led_lowpower_cur (an30259a_reset_register_work i2c s) = led_lowpower_cur s"
  "led_default_cur (an30259a_reset_register_work i2c s) = led_default_cur s"
  by (simp_all add: an30259a_reset_register_work_def Let_def)

lemma neg241: "(- 241 :: u8) = 15"
  by simp

lemma and_not_chain:
  "(((((x AND - 2) AND - 17) AND - 3) AND - 33) AND - 5) AND - 65 = x AND (136::u8)"
proof -
  have "(((((x AND - 2) AND - 17) AND - 3) AND - 33) AND - 5) AND - 65
      = x AND ((((((- 2) AND - 17) AND - 3) AND - 33) AND - 5) AND - 65)"
    by (simp only: and.assoc)
  also have "((((((- 2) AND - 17) AND - 3) AND - 33) AND - 5) AND - 65) = (136::u8)"
    by simp
  finally show ?thesis .
qed

lemma reset_shadow:
  assumes "length (shadow_reg s) = 21"
  shows "shadow_reg (an30259a_reset_register_work i2c s) =
     (shadow_reg s)
       [1 := shadow_reg s ! 1 AND 0x88, 3 := 0, 4 := 0, 5 := 0,
        10 := shadow_reg s ! 10 AND 0x0f, 14 := shadow_reg s ! 14 AND 0x0f,
        18 := shadow_reg s ! 18 AND 0x0f]"
  using assms
  apply (simp add: an30259a_reset_register_work_def leds_on_def reg_write_def reg_read_def Let_def
      reg_defs mask_defs)
  apply (simp add: list_eq_iff_nth_eq nth_list_update and_not_chain neg241)
  done

lemma write_all_snd:
  "snd (leds_i2c_write_all i2c t) =
     t\<lparr>mutex_held := False,
       bus_log := bus_log t @
         (if i2c (bus_log t @ [MutexLock]) (config_block t) < 0
          then [MutexLock, config_block t, MutexUnlock]
          else [MutexLock, config_block t, enable_byte t, MutexUnlock])\<rparr>"
  by (simp add: leds_i2c_write_all_def mutex_lock_def mutex_unlock_def i2c_xfer_def
      config_block_def enable_byte_def reg_read_def Let_def)

lemma all_off_shadow:
  assumes "length (shadow_reg s) = 21"
  shows "shadow_reg (leds_on LED_B False False 0 (leds_on LED_G False False 0
           (leds_on LED_R False False 0 s))) =
     (shadow_reg s)
       [1 := shadow_reg s ! 1 AND 0x88, 3 := 0, 4 := 0, 5 := 0,
        10 := shadow_reg s ! 10 AND 0x0f, 14 := shadow_reg s ! 14 AND 0x0f,
        18 := shadow_reg s ! 18 AND 0x0f]"
  using reset_shadow [OF assms, of i2c_ok]
  by (simp add: an30259a_reset_register_work_def)

lemma shadow_update_cong:
  assumes "t\<lparr>shadow_reg := a\<rparr> = (u :: driver)"
  shows "t\<lparr>shadow_reg := b\<rparr> = u\<lparr>shadow_reg := b\<rparr>"
proof -
  have "(t\<lparr>shadow_reg := a\<rparr>)\<lparr>shadow_reg := b\<rparr> = u\<lparr>shadow_reg := b\<rparr>"
    by (simp only: assms)
  then show ?thesis by simp
qed

lemma all_off_state:
  assumes "length (shadow_reg s) = 21"
  shows "leds_on LED_B False False 0 (leds_on LED_G False False 0 (leds_on LED_R False False 0 s)) =
     s\<lparr>shadow_reg := (shadow_reg s)
       [1 := shadow_reg s ! 1 AND 0x88, 3 := 0, 4 := 0, 5 := 0,
        10 := shadow_reg s ! 10 AND 0x0f, 14 := shadow_reg s ! 14 AND 0x0f,
        18 := shadow_reg s ! 18 AND 0x0f]\<rparr>"
proof -
  let ?s1 = "leds_on LED_R False False 0 s"
  let ?s2 = "leds_on LED_G False False 0 ?s1"
  let ?s3 = "leds_on LED_B False False 0 ?s2"
  let ?regs = "shadow_reg ?s3"
  have "?s3\<lparr>shadow_reg := ?regs\<rparr> = ?s2\<lparr>shadow_reg := ?regs\<rparr>"
    by (rule shadow_update_cong [OF leds_on_other_fields])
  also have "\<dots> = ?s1\<lparr>shadow_reg := ?regs\<rparr>"
    by (rule shadow_update_cong [OF leds_on_other_fields])
  also have "\<dots> = s\<lparr>shadow_reg := ?regs\<rparr>"
    by (rule shadow_update_cong [OF leds_on_other_fields])
  finally have "?s3 = s\<lparr>shadow_reg := ?regs\<rparr>"
    by simp
  then show ?thesis
    by (simp only: all_off_shadow [OF assms])
qed

text \<open>
  C3 (as the code has it). When the requested index is above POWERING or the
  disable-named-patterns flag is set, \<open>an30259a_start_led_pattern\<close> returns at once: the
  reset sub-sequence is not run, no register changes and nothing reaches the bus. A
  negative index with the flag clear runs the reset sub-sequence and halts after it: the
  image has the enable and slope-mode bits of all three channels cleared, the three delay
  fields cleared and the three current codes zero; this image is committed (lock, block
  write of its registers 2..20, its enable byte unless the block write failed, unlock);
  nothing else changes but \<open>LED_DYNAMIC_CURRENT\<close>.
\<close>

theorem pattern_guard:
  fixes i2c :: transport and mode :: int and s :: driver
  assumes "length (shadow_reg s) = 21"
  defines "regs \<equiv> (shadow_reg s)
                  [1 := shadow_reg s ! 1 AND 0x88, 3 := 0, 4 := 0, 5 := 0,
                   10 := shadow_reg s ! 10 AND 0x0f, 14 := shadow_reg s ! 14 AND 0x0f,
                   18 := shadow_reg s ! 18 AND 0x0f]"
  defines "cfg \<equiv> BlockWrite 0x82 19 (drop 2 regs)"
  defines "en \<equiv> ByteWrite 1 (regs ! 1)"
  shows "(mode > POWERING \<or> disabled_samsung_pattern s \<noteq> 0 \<longrightarrow>
            an30259a_start_led_pattern i2c mode s = Inr s)
       \<and> (mode < 0 \<and> disabled_samsung_pattern s = 0 \<longrightarrow>
            an30259a_start_led_pattern i2c mode s =
              Inr (s\<lparr>LED_DYNAMIC_CURRENT :=
                       (if LED_LOWPOWER_MODE s = 1 then ucast (led_lowpower_cur s)
                        else ucast (led_default_cur s)),
                     shadow_reg := regs,
                     mutex_held := False,
                     bus_log := bus_log s @
                       (if i2c (bus_log s @ [MutexLock]) cfg < 0
                        then [MutexLock, cfg, MutexUnlock]
                        else [MutexLock, cfg, en, MutexUnlock])\<rparr>))"
proof (intro conjI impI)
  assume "mode > POWERING \<or> disabled_samsung_pattern s \<noteq> 0"
  then show "an30259a_start_led_pattern i2c mode s = Inr s"
    by (auto simp: an30259a_start_led_pattern_def)
next
  assume neg: "mode < 0 \<and> disabled_samsung_pattern s = 0"
  then have m: "\<not> mode > POWERING" "mode \<noteq> uint LED_OFF" "mode \<noteq> CHARGING"
    "mode \<noteq> CHARGING_ERR" "mode \<noteq> MISSED_NOTI" "mode \<noteq> LOW_BATTERY"
    "mode \<noteq> FULLY_CHARGED" "mode \<noteq> POWERING"
    by (simp_all add: pattern_defs mask_defs)
  let ?off = "s\<lparr>shadow_reg := regs\<rparr>"
  have len: "length (shadow_reg ?off) = 21"
    using assms(1) by (simp add: regs_def)
  have cb: "config_block ?off = cfg"
    using config_block_21 [OF len] by (simp add: cfg_def)
  have eb: "enable_byte ?off = en"
    by (simp add: enable_byte_def reg_read_def en_def reg_defs)
  have r: "an30259a_reset_register_work i2c s =
      s\<lparr>shadow_reg := regs, mutex_held := False,
        bus_log := bus_log s @
          (if i2c (bus_log s @ [MutexLock]) cfg < 0
           then [MutexLock, cfg, MutexUnlock]
           else [MutexLock, cfg, en, MutexUnlock])\<rparr>"
    unfolding an30259a_reset_register_work_def Let_def all_off_state [OF assms(1)]
      write_all_snd regs_def [symmetric] cb eb
    by simp
  show "an30259a_start_led_pattern i2c mode s =
              Inr (s\<lparr>LED_DYNAMIC_CURRENT :=
                       (if LED_LOWPOWER_MODE s = 1 then ucast (led_lowpower_cur s)
                        else ucast (led_default_cur s)),
                     shadow_reg := regs,
                     mutex_held := False,
                     bus_log := bus_log s @
                       (if i2c (bus_log s @ [MutexLock]) cfg < 0
                        then [MutexLock, cfg, MutexUnlock]
                        else [MutexLock, cfg, en, MutexUnlock])\<rparr>)"
    using neg m unfolding an30259a_start_led_pattern_def r
    by (simp add: Let_def)
qed

theorem pattern_guard_witness:
  "length (shadow_reg lit_disabled_state) = 21
   \<and> (CHARGING > POWERING \<or> disabled_samsung_pattern lit_disabled_state \<noteq> 0)
   \<and> an30259a_start_led_pattern i2c_ok CHARGING lit_disabled_state = Inr lit_disabled_state
   \<and> length (shadow_reg lit_state) = 21
   \<and> (- 1 :: int) < 0 \<and> disabled_samsung_pattern lit_state = 0
   \<and> an30259a_start_led_pattern i2c_ok (- 1) lit_state =
        Inr (probe_state\<lparr>bus_log :=
               [MutexLock, BlockWrite 0x82 19 (replicate 19 0), ByteWrite 1 0, MutexUnlock]\<rparr>)"
proof -
  have regs: "(shadow_reg lit_state)
                  [1 := shadow_reg lit_state ! 1 AND 0x88, 3 := 0, 4 := 0, 5 := 0,
                   10 := shadow_reg lit_state ! 10 AND 0x0f, 14 := shadow_reg lit_state ! 14 AND 0x0f,
                   18 := shadow_reg lit_state ! 18 AND 0x0f] = replicate 21 0"
    by (simp add: lit_state_def probe_state_def list_eq_iff_nth_eq nth_list_update)
  show ?thesis
    using pattern_guard [of lit_disabled_state CHARGING i2c_ok]
      pattern_guard [of lit_state "- 1" i2c_ok]
    unfolding regs
    by (simp add: lit_disabled_state_def lit_state_def probe_state_def pattern_defs i2c_ok_def)
qed

text \<open>
  Against C3 as stated: with the flag set (or with index 7) and the red channel lit, the
  pattern operation returns the state as it was; the enable and slope-mode bits and the
  current code stay, and the bus log stays empty.
\<close>

theorem pattern_guard_counterexample:
  "an30259a_start_led_pattern i2c_ok CHARGING lit_disabled_state = Inr lit_disabled_state
   \<and> reg_read lit_disabled_state AN30259A_REG_LEDON = 0x11
   \<and> reg_read lit_disabled_state AN30259A_REG_LED1CC = 0x28
   \<and> an30259a_start_led_pattern i2c_ok 7 lit_state = Inr lit_state
   \<and> reg_read lit_state AN30259A_REG_LEDON = 0x11
   \<and> bus_log lit_state = []"
  by (simp add: an30259a_start_led_pattern_def lit_disabled_state_def lit_state_def
      probe_state_def pattern_defs reg_read_def reg_defs)

lemma pattern_slope_speed0:
  "led_speed s = 0 \<Longrightarrow> pattern_slope led delay d s = Inl DivideByZero"
  by (simp add: pattern_slope_def c_div_def bind_fault_def)

text \<open>
  C4 (the code against the claim). The speed setter stores 0, and with a stored divisor
  of 0 the patterns CHARGING_ERR, MISSED_NOTI and LOW_BATTERY, and the blink-set operation
  with nonzero brightness and nonzero off-time, reach \<open>15 / led_speed\<close> unguarded: the
  result is a division by zero.
\<close>

theorem speed_zero_divides:
  fixes i2c :: transport and mode :: int and s :: driver
  defines "s0 \<equiv> store_an30259a_led_speed (Some 0) s"
  shows "led_speed s0 = 0
       \<and> (disabled_samsung_pattern s = 0 \<and> mode \<in> {CHARGING_ERR, MISSED_NOTI, LOW_BATTERY} \<longrightarrow>
            an30259a_start_led_pattern i2c mode s0 = Inl DivideByZero)
       \<and> (brightness \<noteq> 0 \<and> delay_off_time \<noteq> 0 \<longrightarrow>
            an30259a_set_led_blink led delay_on_time delay_off_time brightness s0 = Inl DivideByZero)"
proof (intro conjI impI)
  have s0: "s0 = s\<lparr>led_speed := 0\<rparr>"
    by (simp add: s0_def store_an30259a_led_speed_def)
  show "led_speed s0 = 0"
    by (simp add: s0)
  {
    assume a: "disabled_samsung_pattern s = 0 \<and> mode \<in> {CHARGING_ERR, MISSED_NOTI, LOW_BATTERY}"
    then have m: "\<not> mode > POWERING" "mode \<noteq> uint LED_OFF" "mode \<noteq> CHARGING"
      by (auto simp: pattern_defs mask_defs)
    from a have "mode = CHARGING_ERR \<or> mode = MISSED_NOTI \<or> mode = LOW_BATTERY"
      by simp
    then show "an30259a_start_led_pattern i2c mode s0 = Inl DivideByZero"
      using a m unfolding an30259a_start_led_pattern_def s0
      by (auto simp: Let_def pattern_slope_speed0 bind_fault_def pattern_defs)
  }
  {
    assume b: "brightness \<noteq> 0 \<and> delay_off_time \<noteq> 0"
    then have "(if delay_off_time > SLPTT_MAX_VALUE then SLPTT_MAX_VALUE else delay_off_time) \<noteq> 0"
      by (simp add: mask_defs)
    with b show "an30259a_set_led_blink led delay_on_time delay_off_time brightness s0 = Inl DivideByZero"
      unfolding an30259a_set_led_blink_def s0
      by (simp add: Let_def c_div_def bind_fault_def mask_defs)
  }
qed

theorem speed_zero_divides_witness:
  "led_speed (store_an30259a_led_speed (Some 0) probe_state) = 0
   \<and> disabled_samsung_pattern probe_state = 0 \<and> CHARGING_ERR \<in> {CHARGING_ERR, MISSED_NOTI, LOW_BATTERY}
   \<and> an30259a_start_led_pattern i2c_ok CHARGING_ERR (store_an30259a_led_speed (Some 0) probe_state)
        = Inl DivideByZero
   \<and> (0x80 :: u8) \<noteq> 0 \<and> (500 :: u32) \<noteq> 0
   \<and> an30259a_set_led_blink LED_R 1000 500 0x80 (store_an30259a_led_speed (Some 0) probe_state)
        = Inl DivideByZero"
  using speed_zero_divides [of probe_state CHARGING_ERR i2c_ok "0x80" 500 LED_R 1000]
  by (simp add: probe_state_def)

section \<open>The blink-set operation\<close>

lemma unat_u8_le: "unat (b::u8) \<le> 255"
  using unsigned_less [of b, where 'a = nat] by simp

lemma scale_bound:
  fixes B C :: nat
  assumes "B \<le> 255" and "C \<le> 255"
  shows "B * C div 255 \<le> 255"
proof -
  have "B * C \<le> 255 * 255"
    using assms by (rule mult_le_mono)
  then have "B * C div 255 \<le> 255 * 255 div 255"
    by (rule div_le_mono)
  then show ?thesis by simp
qed

lemma scale_u8:
  "unat (u8_of_int (uint (b::u8) * uint (c::u8) div uint LED_MAX_CURRENT)) = unat b * unat c div 255"
proof -
  have "uint b * uint c div uint LED_MAX_CURRENT = int (unat b * unat c div 255)"
    by (simp add: LED_MAX_CURRENT_def zdiv_int)
  moreover have "unat b * unat c div 255 < 256"
    using scale_bound [OF unat_u8_le [of b] unat_u8_le [of c]] by simp
  ultimately show ?thesis
    by (simp add: u8_of_int_def unat_of_nat)
qed

lemma ceil_div_500: "nat \<lceil>real n / 500\<rceil> = (n + 499) div 500"
proof -
  define z where "z = (n + 499) div 500"
  have "500 * z \<le> n + 499"
    unfolding z_def by simp
  then have "real (500 * z) \<le> real (n + 499)"
    by (simp only: of_nat_le_iff)
  then have lo: "500 * real z \<le> real n + 499"
    by simp
  have "n + 499 < 500 * z + 500"
    unfolding z_def using dividend_less_times_div [of 500 "n + 499"] by simp
  then have "n \<le> 500 * z"
    by simp
  then have "real n \<le> real (500 * z)"
    by (simp only: of_nat_le_iff)
  then have hi: "real n \<le> 500 * real z"
    by simp
  have "\<lceil>real n / 500\<rceil> = int z"
  proof (rule ceiling_unique)
    show "of_int (int z) - 1 < real n / 500"
      using lo by (simp add: field_simps)
    show "real n / 500 \<le> of_int (int z)"
      using hi by (simp add: field_simps)
  qed
  then show ?thesis
    by (simp add: z_def)
qed

lemma speed_word:
  assumes "1 \<le> speed" and "speed < 2 ^ 31"
  shows "unat (word_of_int speed :: u32) = nat speed"
proof -
  have "take_bit 32 speed = speed"
    using assms by (simp add: take_bit_int_eq_self)
  then show ?thesis
    by (simp add: unsigned_of_int)
qed

lemma slope_time_value:
  assumes "1 \<le> speed" and "speed < 2 ^ 31" and "unat d \<le> 7500"
  shows "slope_time d speed = Inr (of_nat ((unat d div nat speed + 499) div 500))
       \<and> (unat d div nat speed + 499) div 500 \<le> 15"
proof -
  let ?w = "word_of_int speed :: u32"
  have w: "unat ?w = nat speed"
    by (rule speed_word [OF assms(1,2)])
  then have nz: "?w \<noteq> 0"
    using assms(1) by (auto simp: unsigned_eq_0_iff [symmetric, where 'a = nat] simp del: unsigned_eq_0_iff)
  define q where "q = d div ?w"
  have q: "unat q = unat d div nat speed"
    by (simp add: q_def unat_div w)
  have "unat d div nat speed \<le> 7500"
    by (rule order_trans [OF div_le_dividend assms(3)])
  then have qb: "unat q \<le> 7500"
    by (simp only: q)
  have "unat q + unat (499 :: u32) < 2 ^ LENGTH(32)"
    using qb by simp
  then have "unat (q + 499) = unat q + unat (499 :: u32)"
    by (simp only: unat_add_lem)
  then have s: "unat (q + 499) = unat q + 499"
    by simp
  have r: "unat ((q + 499) div 500) = (unat q + 499) div 500"
    by (simp add: unat_div s)
  have b: "(unat q + 499) div 500 \<le> 15"
    using qb by simp
  have "(ucast ((q + 499) div 500) :: u8) = of_nat (unat ((q + 499) div 500))"
    by simp
  then have "(ucast ((q + 499) div 500) :: u8) = of_nat ((unat d div nat speed + 499) div 500)"
    by (simp only: r q)
  moreover have "slope_time d speed = Inr (ucast ((q + 499) div 500))"
    using nz by (simp add: slope_time_def u_div_def bind_fault_def q_def mask_defs add.commute)
  ultimately show ?thesis
    using b q by simp
qed

lemma c_div_pos: "1 \<le> speed \<Longrightarrow> 0 \<le> a \<Longrightarrow> c_div a speed = Inr (a div speed)"
  by (simp add: c_div_def sgn_if)

lemma leds_on_bits:
  assumes "length (shadow_reg s) = 21"
  shows "bit (reg_read (leds_on led on slopemode ledcc s) AN30259A_REG_LEDON) (led_num led) = on"
    and "bit (reg_read (leds_on led on slopemode ledcc s) AN30259A_REG_LEDON) (4 + led_num led)
           = (slopemode \<and> led_speed s \<noteq> 0)"
  unfolding leds_on_LEDON [OF assms]
  using led_num_cases [of led]
  by (auto simp: Let_def mask_defs bit_simps)


lemma blink_off:
  "an30259a_set_led_blink led delay_on_time delay_off_time 0 s = Inr (leds_on led False False 0 s)"
  by (simp add: an30259a_set_led_blink_def LED_OFF_def)

lemma blink_steady:
  assumes "brightness \<noteq> 0"
  shows "an30259a_set_led_blink led delay_on_time 0 brightness s =
     Inr (let s1 = s\<lparr>LED_DYNAMIC_CURRENT := ucast (led_current led s)\<rparr>;
              e = blink_brightness led brightness s
          in if e = 0 then leds_on led False False 0 (leds_on led True False 0 s1)
             else leds_on led True False e s1)"
  using assms
  by (simp add: an30259a_set_led_blink_def LED_OFF_def SLPTT_MAX_VALUE_def Let_def)

lemma clamp_nonzero:
  "(d::u32) \<noteq> 0 \<Longrightarrow> (if d > SLPTT_MAX_VALUE then SLPTT_MAX_VALUE else d) \<noteq> 0"
  by (simp add: SLPTT_MAX_VALUE_def)


lemma blink_brightness_unat:
  "unat (blink_brightness led brightness s) =
     (if led_intensity s = 0 then min (unat brightness) 255
      else if led_intensity s = 40 then unat brightness * unat (ucast (led_current led s) :: u8) div 255
      else unat brightness * unat (led_intensity s) div 255)"
proof -
  have "\<not> brightness > LED_MAX_CURRENT"
    by (simp add: LED_MAX_CURRENT_def word_le_nat_alt unat_u8_le not_less)
  then show ?thesis
    using unat_u8_le [of brightness]
    by (simp add: blink_brightness_def scale_u8 Let_def)
qed

lemma blink_brightness_0 [simp]: "blink_brightness led 0 s = 0"
proof -
  have "unat (blink_brightness led 0 s) = 0"
    by (simp add: blink_brightness_unat)
  then show ?thesis
    by (simp only: unsigned_eq_0_iff)
qed









text \<open>
  C7 (as the code has it). For every channel, blink-set with brightness 0 switches the
  channel off whatever the timing arguments. With off-time 0 and a nonzero request whose
  effective (intensity-scaled) brightness is nonzero, the channel is enabled without
  slope mode and only LEDON and the channel's current code change, so no slope timing
  register is written. With off-time 0 and a nonzero request whose effective brightness
  is 0, the channel is switched off.
\<close>

theorem blink_degenerate:
  fixes s :: driver and led :: an30259a_led_enum and brightness :: u8
    and delay_on_time delay_off_time :: u32
  assumes "length (shadow_reg s) = 21"
  shows "(\<exists>s'. an30259a_set_led_blink led delay_on_time delay_off_time 0 s = Inr s'
            \<and> \<not> bit (reg_read s' AN30259A_REG_LEDON) (led_num led))
       \<and> (brightness \<noteq> 0 \<and> blink_brightness led brightness s \<noteq> 0 \<longrightarrow>
            (\<exists>s'. an30259a_set_led_blink led delay_on_time 0 brightness s = Inr s'
               \<and> bit (reg_read s' AN30259A_REG_LEDON) (led_num led)
               \<and> \<not> bit (reg_read s' AN30259A_REG_LEDON) (4 + led_num led)
               \<and> (\<forall>i. i \<noteq> AN30259A_REG_LEDON \<and> i \<noteq> AN30259A_REG_LED1CC + led_num led
                     \<longrightarrow> reg_read s' i = reg_read s i)))
       \<and> (brightness \<noteq> 0 \<and> blink_brightness led brightness s = 0 \<longrightarrow>
            (\<exists>s'. an30259a_set_led_blink led delay_on_time 0 brightness s = Inr s'
               \<and> \<not> bit (reg_read s' AN30259A_REG_LEDON) (led_num led)))"
proof (intro conjI impI)
  show "\<exists>s'. an30259a_set_led_blink led delay_on_time delay_off_time 0 s = Inr s'
            \<and> \<not> bit (reg_read s' AN30259A_REG_LEDON) (led_num led)"
    by (simp add: blink_off leds_on_bits [OF assms])
next
  let ?s1 = "s\<lparr>LED_DYNAMIC_CURRENT := ucast (led_current led s)\<rparr>"
  let ?e = "blink_brightness led brightness s"
  have len1: "length (shadow_reg ?s1) = 21"
    using assms by simp
  assume a: "brightness \<noteq> 0 \<and> ?e \<noteq> 0"
  then have r: "an30259a_set_led_blink led delay_on_time 0 brightness s = Inr (leds_on led True False ?e ?s1)"
    by (simp add: blink_steady Let_def)
  have "\<forall>i. i \<noteq> AN30259A_REG_LEDON \<and> i \<noteq> AN30259A_REG_LED1CC + led_num led
          \<longrightarrow> reg_read (leds_on led True False ?e ?s1) i = reg_read s i"
    by (simp add: leds_on_frame) (simp add: reg_read_def)
  then show "\<exists>s'. an30259a_set_led_blink led delay_on_time 0 brightness s = Inr s'
               \<and> bit (reg_read s' AN30259A_REG_LEDON) (led_num led)
               \<and> \<not> bit (reg_read s' AN30259A_REG_LEDON) (4 + led_num led)
               \<and> (\<forall>i. i \<noteq> AN30259A_REG_LEDON \<and> i \<noteq> AN30259A_REG_LED1CC + led_num led
                     \<longrightarrow> reg_read s' i = reg_read s i)"
    unfolding r by (simp add: leds_on_bits [OF len1])
next
  let ?s1 = "s\<lparr>LED_DYNAMIC_CURRENT := ucast (led_current led s)\<rparr>"
  have len2: "length (shadow_reg (leds_on led True False 0 ?s1)) = 21"
    using assms by simp
  assume "brightness \<noteq> 0 \<and> blink_brightness led brightness s = 0"
  then have r: "an30259a_set_led_blink led delay_on_time 0 brightness s =
      Inr (leds_on led False False 0 (leds_on led True False 0 ?s1))"
    by (simp add: blink_steady Let_def)
  show "\<exists>s'. an30259a_set_led_blink led delay_on_time 0 brightness s = Inr s'
               \<and> \<not> bit (reg_read s' AN30259A_REG_LEDON) (led_num led)"
    unfolding r by (simp add: leds_on_bits [OF len2])
qed

lemma blink_probe_steady:
  "an30259a_set_led_blink LED_R 1000 0 0x80 lit_state =
     Inr (probe_state\<lparr>shadow_reg := (replicate 21 0)[1 := 1, 3 := 20]\<rparr>)"
  by (simp add: an30259a_set_led_blink_def blink_brightness_def leds_on_def reg_write_def
      reg_read_def probe_state_def lit_state_def u8_of_int_def reg_defs mask_defs Let_def
      list_eq_iff_nth_eq nth_list_update)

lemma blink_probe_dim:
  "an30259a_set_led_blink LED_R 1000 0 1 lit_state =
     Inr (probe_state\<lparr>shadow_reg := (replicate 21 0)[1 := 0, 3 := 0, 10 := 0]\<rparr>)"
  by (simp add: an30259a_set_led_blink_def blink_brightness_def leds_on_def reg_write_def
      reg_read_def probe_state_def lit_state_def u8_of_int_def reg_defs mask_defs Let_def
      list_eq_iff_nth_eq nth_list_update)

theorem blink_degenerate_witness:
  "length (shadow_reg lit_state) = 21
   \<and> \<not> bit (reg_read (leds_on LED_R False False 0 lit_state) 1) 0
   \<and> (0x80 :: u8) \<noteq> 0 \<and> blink_brightness LED_R 0x80 lit_state \<noteq> 0
   \<and> an30259a_set_led_blink LED_R 1000 0 0x80 lit_state =
        Inr (probe_state\<lparr>shadow_reg := (replicate 21 0)[1 := 1, 3 := 20]\<rparr>)
   \<and> (1 :: u8) \<noteq> 0 \<and> blink_brightness LED_R 1 lit_state = 0
   \<and> an30259a_set_led_blink LED_R 1000 0 1 lit_state =
        Inr (probe_state\<lparr>shadow_reg := (replicate 21 0)[1 := 0, 3 := 0, 10 := 0]\<rparr>)"
  using blink_degenerate [of lit_state LED_R 1000 500 "0x80"] blink_degenerate [of lit_state LED_R 1000 500 1]
    blink_probe_steady blink_probe_dim
  by (simp add: lit_state_def probe_state_def blink_brightness_def u8_of_int_def mask_defs
      blink_off reg_defs)

text \<open>
  Against C7 as stated: at the default intensity 40 and current 0x28, brightness 1 with
  off-time 0 scales to 0 and the red channel, lit before, ends with its enable bit clear.
\<close>

theorem blink_degenerate_counterexample:
  "(1 :: u8) \<noteq> 0
   \<and> an30259a_set_led_blink LED_R 1000 0 1 lit_state =
        Inr (probe_state\<lparr>shadow_reg := (replicate 21 0)[1 := 0, 3 := 0, 10 := 0]\<rparr>)
   \<and> \<not> bit (reg_read (probe_state\<lparr>shadow_reg := (replicate 21 0)[1 := 0, 3 := 0, 10 := 0]\<rparr>)
              AN30259A_REG_LEDON) 0"
  by (simp add: an30259a_set_led_blink_def blink_brightness_def leds_on_def reg_write_def
      reg_read_def probe_state_def lit_state_def u8_of_int_def reg_defs mask_defs Let_def
      list_eq_iff_nth_eq nth_list_update)

lemma nibble_of_nat:
  assumes "n \<le> 15"
  shows "unat (of_nat n :: u8) = n" and "(of_nat n :: u8) < 16"
proof -
  show u: "unat (of_nat n :: u8) = n"
    using assms by (simp add: unat_of_nat)
  show "(of_nat n :: u8) < 16"
    using assms by (simp add: word_less_nat_alt u)
qed

lemma slope_mode_reads:
  fixes s :: driver and led :: an30259a_led_enum
    and delay dutymax dutymid dutymin slptt1 slptt2 dt1 dt2 dt3 dt4 :: u8
  assumes "length (shadow_reg s) = 21"
  defines "s' \<equiv> leds_set_slope_mode led delay dutymax dutymid dutymin slptt1 slptt2 dt1 dt2 dt3 dt4 s"
  shows "reg_read s' (AN30259A_REG_LED1CNT1 + led_num led * 4) = pack_nibbles dutymax dutymid"
    and "reg_read s' (AN30259A_REG_LED1CNT2 + led_num led * 4) = pack_nibbles delay dutymin"
    and "reg_read s' (AN30259A_REG_LED1CNT3 + led_num led * 4) = pack_nibbles dt2 dt1"
    and "reg_read s' (AN30259A_REG_LED1CNT4 + led_num led * 4) = pack_nibbles dt4 dt3"
    and "reg_read s' (AN30259A_REG_LED1SLP + led_num led) = pack_nibbles slptt2 slptt1"
  using assms(1) led_num_cases [of led]
  unfolding s'_def leds_set_slope_mode_regs
  by (auto simp: reg_read_def reg_defs)

lemma pack_zero [simp]: "pack_nibbles 0 0 = 0"
  by (simp add: pack_nibbles_eq)

lemma clamp_unat:
  "unat (if d > SLPTT_MAX_VALUE then SLPTT_MAX_VALUE else d) = min (unat d) 7500"
  by (simp add: SLPTT_MAX_VALUE_def word_less_nat_alt)

lemma blink_slope_result:
  fixes s :: driver and led :: an30259a_led_enum and brightness :: u8
    and delay_on_time delay_off_time :: u32
  assumes sp: "1 \<le> led_speed s" "led_speed s < 2 ^ 31"
    and fade: "led_enable_fade s \<noteq> 1"
    and b: "brightness \<noteq> 0" and off: "delay_off_time \<noteq> 0"
  defines "t \<equiv> \<lambda>d. (of_nat ((min (unat d) 7500 div nat (led_speed s) + 499) div 500) :: u8)"
  shows "an30259a_set_led_blink led delay_on_time delay_off_time brightness s =
     Inr (leds_set_slope_mode led 0 (u8_of_int (15 div led_speed s)) (u8_of_int (15 div led_speed s)) 0
            (t delay_on_time) (t delay_off_time) 0 0 0 0
            (leds_on led True True (blink_brightness led brightness s)
               (s\<lparr>LED_DYNAMIC_CURRENT := ucast (led_current led s)\<rparr>)))"
proof -
  let ?on = "if delay_on_time > SLPTT_MAX_VALUE then SLPTT_MAX_VALUE else delay_on_time"
  let ?off = "if delay_off_time > SLPTT_MAX_VALUE then SLPTT_MAX_VALUE else delay_off_time"
  have on_t: "slope_time ?on (led_speed s) = Inr (t delay_on_time)"
    using slope_time_value [OF sp, of ?on] unfolding t_def clamp_unat by simp
  have off_t: "slope_time ?off (led_speed s) = Inr (t delay_off_time)"
    using slope_time_value [OF sp, of ?off] unfolding t_def clamp_unat by simp
  have d: "c_div 15 (led_speed s) = Inr (15 div led_speed s)"
    using sp(1) by (simp add: c_div_pos)
  show ?thesis
    using b fade clamp_nonzero [OF off] on_t off_t d
    unfolding an30259a_set_led_blink_def
    by (simp add: Let_def bind_fault_def LED_OFF_def)
qed

text \<open>
  C6 (as the code has it). With a speed divisor \<open>s \<ge> 1\<close>, fade disabled, nonzero
  brightness and nonzero off-time, blink-set returns and the slope register of the channel
  holds, in its low and high nibble, the phase times of the on and the off duration: a
  duration \<open>d\<close> is clamped to 7500 ms, divided by \<open>s\<close> with integer division (the
  quotient is rounded down first), and the quotient is converted to half-seconds by
  \<open>ceil(_ / 500)\<close>, which is at most 15. Both duty nibbles are \<open>15 / s\<close>, the delay and
  the four transition nibbles are 0. The witness has the scenario
  \<open>set_blink(LED_R, 1000, 500, 0x80)\<close> at speed 1 (phase times 2 and 1, duties 15) and
  \<open>set_blink(LED_R, 1001, 500, 0x80)\<close> at speed 2 (phase times 1 and 1, duties 7).
\<close>

theorem blink_slope_times:
  fixes s :: driver and led :: an30259a_led_enum and brightness :: u8
    and delay_on_time delay_off_time :: u32
  assumes len: "length (shadow_reg s) = 21"
    and sp: "1 \<le> led_speed s" "led_speed s < 2 ^ 31"
    and fade: "led_enable_fade s \<noteq> 1"
    and b: "brightness \<noteq> 0" and off: "delay_off_time \<noteq> 0"
  defines "phase \<equiv> \<lambda>d. nat \<lceil>real (min (unat d) 7500 div nat (led_speed s)) / 500\<rceil>"
  defines "duty \<equiv> nat (15 div led_speed s)"
  shows "\<exists>s'. an30259a_set_led_blink led delay_on_time delay_off_time brightness s = Inr s'
    \<and> unat (lo_nibble (reg_read s' (AN30259A_REG_LED1SLP + led_num led))) = phase delay_on_time
    \<and> unat (hi_nibble (reg_read s' (AN30259A_REG_LED1SLP + led_num led))) = phase delay_off_time
    \<and> phase delay_on_time \<le> 15 \<and> phase delay_off_time \<le> 15
    \<and> unat (hi_nibble (reg_read s' (AN30259A_REG_LED1CNT1 + led_num led * 4))) = duty
    \<and> unat (lo_nibble (reg_read s' (AN30259A_REG_LED1CNT1 + led_num led * 4))) = duty
    \<and> reg_read s' (AN30259A_REG_LED1CNT2 + led_num led * 4) = 0
    \<and> reg_read s' (AN30259A_REG_LED1CNT3 + led_num led * 4) = 0
    \<and> reg_read s' (AN30259A_REG_LED1CNT4 + led_num led * 4) = 0"
proof -
  let ?s2 = "leds_on led True True (blink_brightness led brightness s)
               (s\<lparr>LED_DYNAMIC_CURRENT := ucast (led_current led s)\<rparr>)"
  let ?t = "\<lambda>d. (of_nat (phase d) :: u8)"
  let ?D = "of_nat duty :: u8"
  let ?s' = "leds_set_slope_mode led 0 ?D ?D 0 (?t delay_on_time) (?t delay_off_time) 0 0 0 0 ?s2"
  have len2: "length (shadow_reg ?s2) = 21"
    using len by simp
  have ph: "phase d = (min (unat d) 7500 div nat (led_speed s) + 499) div 500" for d
    unfolding phase_def by (rule ceil_div_500)
  have qb: "min (unat d) 7500 div nat (led_speed s) \<le> 7500" for d
    by (rule order_trans [OF div_le_dividend]) simp
  have pb: "phase d \<le> 15" for d
  proof -
    have "min (unat d) 7500 div nat (led_speed s) + 499 \<le> 7999"
      using qb [of d] by simp
    then have "(min (unat d) 7500 div nat (led_speed s) + 499) div 500 \<le> 7999 div 500"
      by (rule div_le_mono)
    then show ?thesis
      unfolding ph by simp
  qed
  have dn: "15 div led_speed s = int (15 div nat (led_speed s))"
    using sp(1) by (simp add: zdiv_int)
  have db: "duty \<le> 15"
    unfolding duty_def dn by simp
  have du: "u8_of_int (15 div led_speed s) = ?D"
    unfolding duty_def dn u8_of_int_def by simp
  have r: "an30259a_set_led_blink led delay_on_time delay_off_time brightness s = Inr ?s'"
    using blink_slope_result [OF sp fade b off, of led delay_on_time] unfolding du ph by simp
  have slp: "reg_read ?s' (AN30259A_REG_LED1SLP + led_num led) =
               pack_nibbles (?t delay_off_time) (?t delay_on_time)"
    and cnt1: "reg_read ?s' (AN30259A_REG_LED1CNT1 + led_num led * 4) = pack_nibbles ?D ?D"
    and cnt2: "reg_read ?s' (AN30259A_REG_LED1CNT2 + led_num led * 4) = 0"
    and cnt3: "reg_read ?s' (AN30259A_REG_LED1CNT3 + led_num led * 4) = 0"
    and cnt4: "reg_read ?s' (AN30259A_REG_LED1CNT4 + led_num led * 4) = 0"
    by (simp_all add: slope_mode_reads [OF len2])
  have n1: "unat (lo_nibble (reg_read ?s' (AN30259A_REG_LED1SLP + led_num led))) = phase delay_on_time"
    unfolding slp by (simp add: lo_nibble_pack nibble_of_nat [OF pb])
  have n2: "unat (hi_nibble (reg_read ?s' (AN30259A_REG_LED1SLP + led_num led))) = phase delay_off_time"
    unfolding slp by (simp add: hi_nibble_pack nibble_of_nat [OF pb])
  have n3: "unat (hi_nibble (reg_read ?s' (AN30259A_REG_LED1CNT1 + led_num led * 4))) = duty"
    unfolding cnt1 by (simp add: hi_nibble_pack nibble_of_nat [OF db])
  have n4: "unat (lo_nibble (reg_read ?s' (AN30259A_REG_LED1CNT1 + led_num led * 4))) = duty"
    unfolding cnt1 by (simp add: lo_nibble_pack nibble_of_nat [OF db])
  from r n1 n2 n3 n4 cnt2 cnt3 cnt4 pb show ?thesis
    by blast
qed

lemma blink_scenario:
  "an30259a_set_led_blink LED_R 1000 500 0x80 probe_state = Inr blink_scenario_state"
  by (simp add: an30259a_set_led_blink_def blink_brightness_def leds_on_def reg_write_def
      reg_read_def probe_state_def blink_scenario_state_def u8_of_int_def reg_defs mask_defs Let_def
      leds_set_slope_mode_def pack_nibbles_eq slope_time_def u_div_def c_div_def bind_fault_def
      list_eq_iff_nth_eq nth_list_update)

lemma half_speed_blink:
  "an30259a_set_led_blink LED_R 1001 500 0x80 half_speed_state = Inr half_speed_blink_state"
  by (simp add: an30259a_set_led_blink_def blink_brightness_def leds_on_def reg_write_def
      reg_read_def probe_state_def half_speed_state_def half_speed_blink_state_def u8_of_int_def
      reg_defs mask_defs Let_def
      leds_set_slope_mode_def pack_nibbles_eq slope_time_def u_div_def c_div_def bind_fault_def
      list_eq_iff_nth_eq nth_list_update)

theorem blink_slope_times_witness:
  "length (shadow_reg probe_state) = 21
   \<and> 1 \<le> led_speed probe_state \<and> led_speed probe_state < 2 ^ 31
   \<and> led_enable_fade probe_state \<noteq> 1 \<and> (0x80 :: u8) \<noteq> 0 \<and> (500 :: u32) \<noteq> 0
   \<and> an30259a_set_led_blink LED_R 1000 500 0x80 probe_state = Inr blink_scenario_state
   \<and> unat (lo_nibble (reg_read blink_scenario_state 6)) = 2
   \<and> unat (hi_nibble (reg_read blink_scenario_state 6)) = 1
   \<and> unat (hi_nibble (reg_read blink_scenario_state 9)) = 15
   \<and> unat (lo_nibble (reg_read blink_scenario_state 9)) = 15
   \<and> reg_read blink_scenario_state 11 = 0
   \<and> reg_read blink_scenario_state 12 = 0
   \<and> length (shadow_reg half_speed_state) = 21
   \<and> 1 \<le> led_speed half_speed_state \<and> led_speed half_speed_state < 2 ^ 31
   \<and> led_enable_fade half_speed_state \<noteq> 1
   \<and> an30259a_set_led_blink LED_R 1001 500 0x80 half_speed_state = Inr half_speed_blink_state
   \<and> unat (lo_nibble (reg_read half_speed_blink_state 6)) = 1
   \<and> unat (hi_nibble (reg_read half_speed_blink_state 6)) = 1
   \<and> unat (hi_nibble (reg_read half_speed_blink_state 9)) = 7
   \<and> unat (lo_nibble (reg_read half_speed_blink_state 9)) = 7"
proof -
  have p1: "nat \<lceil>real (min (unat (1000 :: u32)) 7500 div nat (led_speed probe_state)) / 500\<rceil> = 2"
    and p2: "nat \<lceil>real (min (unat (500 :: u32)) 7500 div nat (led_speed probe_state)) / 500\<rceil> = 1"
    unfolding ceil_div_500 by (simp_all add: probe_state_def)
  have q1: "nat \<lceil>real (min (unat (1001 :: u32)) 7500 div nat (led_speed half_speed_state)) / 500\<rceil> = 1"
    and q2: "nat \<lceil>real (min (unat (500 :: u32)) 7500 div nat (led_speed half_speed_state)) / 500\<rceil> = 1"
    unfolding ceil_div_500 by (simp_all add: half_speed_state_def probe_state_def)
  show ?thesis
    using blink_slope_times [where s = probe_state and led = LED_R and brightness = "0x80"
        and delay_on_time = 1000 and delay_off_time = 500]
      blink_slope_times [where s = half_speed_state and led = LED_R and brightness = "0x80"
        and delay_on_time = 1001 and delay_off_time = 500]
    unfolding p1 p2 q1 q2 blink_scenario half_speed_blink
    by (simp add: probe_state_def half_speed_state_def reg_defs)
qed

text \<open>
  Against C6 as stated: at speed 2 an on-time of 1001 ms gives phase 1 in the slope
  register, where \<open>ceil(1001 / 2 / 500)\<close> is 2.
\<close>

theorem blink_slope_times_counterexample:
  "1 \<le> led_speed half_speed_state \<and> led_enable_fade half_speed_state \<noteq> 1
   \<and> an30259a_set_led_blink LED_R 1001 500 0x80 half_speed_state = Inr half_speed_blink_state
   \<and> unat (lo_nibble (reg_read half_speed_blink_state (AN30259A_REG_LED1SLP + led_num LED_R))) = 1
   \<and> spec_slope_phase 1001 (led_speed half_speed_state) = 2"
proof -
  have "\<lceil>(1001 :: real) / 2 / 500\<rceil> = 2"
    by (simp add: ceiling_eq_iff)
  then have "spec_slope_phase 1001 (led_speed half_speed_state) = 2"
    by (simp add: spec_slope_phase_def half_speed_state_def probe_state_def)
  moreover have "unat (lo_nibble (reg_read half_speed_blink_state (AN30259A_REG_LED1SLP + led_num LED_R))) = 1"
    by (simp add: half_speed_blink_state_def half_speed_state_def probe_state_def reg_read_def
        lo_nibble_def reg_defs)
  ultimately show ?thesis
    using half_speed_blink by (simp add: half_speed_state_def probe_state_def)
qed

end
